theory Spec2Isabelle
  imports Complex_Main "HOL-Library.Sublist" "HOL-Library.Log_Nat"
begin

section \<open>Strings\<close>

text \<open>
  A Python \<open>str\<close> is a sequence of Unicode code points, and \<open>len\<close> counts code points.
  A string is therefore a list of code points, each a natural number; the literals of
  \<open>utils.py\<close> are written out as their code points.
\<close>

type_synonym ustr = "nat list"

text \<open>
  The character tables of the Python runtime that \<open>utils.py\<close> consults are not part of the
  repository. They are a parameter of every function that uses them: \<open>lower\<close> is
  \<open>str.lower\<close>, \<open>isdigit\<close> is \<open>str.isdigit\<close> on one character and \<open>isword\<close> is the class
  \<open>\w\<close> of the module \<open>re\<close> on one character.
\<close>

record unicode_db =
  lower :: "ustr \<Rightarrow> ustr"
  isdigit :: "nat \<Rightarrow> bool"
  isword :: "nat \<Rightarrow> bool"

text \<open>
  A table that is the runtime's on the code points below 256 (ASCII and Latin-1): \<open>lower\<close>
  maps \<open>A\<close> to \<open>Z\<close> and the capital letters 192 to 222, except the multiplication sign 215,
  to the letter 32 places further and leaves every other character, the sharp s 223 among
  them, as it is; the digits are \<open>0\<close> to \<open>9\<close> and the superscripts 178, 179 and 185; the
  word characters are the digits, the letters, the underscore, the ordinal indicators 170
  and 186, the micro sign 181 and the fractions 188 to 190. From 256 on the table lowers
  nothing and has no digit and no word character. There the runtime agrees with it on
  \<open>lower\<close> and \<open>isdigit\<close> for kana and CJK ideographs, which have no case and are not digits;
  the theorems below evaluate the table on no other character above 255.
\<close>

definition latin1_lower :: "nat \<Rightarrow> nat" where
  "latin1_lower c =
     (if (65 \<le> c \<and> c \<le> 90) \<or> (192 \<le> c \<and> c \<le> 222 \<and> c \<noteq> 215) then c + 32 else c)"

definition latin1_isdigit :: "nat \<Rightarrow> bool" where
  "latin1_isdigit c = ((48 \<le> c \<and> c \<le> 57) \<or> c = 178 \<or> c = 179 \<or> c = 185)"

definition latin1_isword :: "nat \<Rightarrow> bool" where
  "latin1_isword c =
     ((48 \<le> c \<and> c \<le> 57) \<or> (65 \<le> c \<and> c \<le> 90) \<or> c = 95 \<or> (97 \<le> c \<and> c \<le> 122)
      \<or> c = 170 \<or> c = 178 \<or> c = 179 \<or> c = 181 \<or> c = 185 \<or> c = 186
      \<or> (188 \<le> c \<and> c \<le> 190) \<or> (192 \<le> c \<and> c \<le> 214) \<or> (216 \<le> c \<and> c \<le> 246)
      \<or> (248 \<le> c \<and> c \<le> 255))"

definition latin1_db :: unicode_db where
  "latin1_db =
     \<lparr> lower = map latin1_lower, isdigit = latin1_isdigit, isword = latin1_isword \<rparr>"

text \<open>\<open>sub in s\<close> on strings: \<open>sub\<close> occurs in \<open>s\<close> as a contiguous run.\<close>

fun contains :: "ustr \<Rightarrow> ustr \<Rightarrow> bool" where
  "contains [] sub = (sub = [])"
| "contains (c # cs) sub = (prefix sub (c # cs) \<or> contains cs sub)"

text \<open>\<open>sep.join(xs)\<close>.\<close>

fun join :: "ustr \<Rightarrow> ustr list \<Rightarrow> ustr" where
  "join sep [] = []"
| "join sep [x] = x"
| "join sep (x # y # ys) = x @ sep @ join sep (y # ys)"

section \<open>Title scorer: \<open>ClaudeClient.evaluate_seo_title\<close>\<close>

text \<open>The messages of the scorer, in the order of the source.\<close>

definition msg_missing_keyword :: ustr where
  "msg_missing_keyword = [12513, 12452, 12531, 12461, 12540, 12527, 12540, 12489, 12364, 21547,
     12414, 12428, 12390, 12356, 12414, 12379, 12435]"

definition msg_too_long :: ustr where
  "msg_too_long = [12479, 12452, 12488, 12523, 12364, 38263, 12377, 12366, 12414, 12377, 65288,
     51, 48, 25991, 23383, 20197, 19979, 12364, 26395, 12414, 12375, 12356, 65289]"

definition msg_too_short :: ustr where
  "msg_too_short = [12479, 12452, 12488, 12523, 12364, 30701, 12377, 12366, 12414, 12377]"

definition msg_no_digit :: ustr where
  "msg_no_digit = [25968, 23383, 12434, 21547, 12417, 12427, 12392, 67, 84, 82, 12364, 21521,
     19978, 12377, 12427, 21487, 33021, 24615, 12364, 12354, 12426, 12414, 12377]"

definition msg_no_appeal :: ustr where
  "msg_no_appeal = [39749, 21147, 30340, 12394, 34920, 29694, 12434, 36861, 21152, 12377, 12427,
     12392, 12424, 12356, 12391, 12375, 12423, 12358]"

definition summary_excellent :: ustr where
  "summary_excellent = [20778, 12428, 12383, 83, 69, 79, 12479, 12452, 12488, 12523, 12391,
     12377]"

definition summary_good :: ustr where
  "summary_good = [33391, 12356, 12479, 12452, 12488, 12523, 12391, 12377, 12364, 12289, 25913,
     21892, 12398, 20313, 22320, 12364, 12354, 12426, 12414, 12377]"

definition summary_average :: ustr where
  "summary_average = [24179, 22343, 30340, 12394, 83, 69, 79, 12479, 12452, 12488, 12523, 12391,
     12377, 12290, 25913, 21892, 28857, 12364, 12354, 12426, 12414, 12377]"

definition summary_poor :: ustr where
  "summary_poor = [83, 69, 79, 35251, 28857, 12363, 12425, 25913, 21892, 12364, 24517, 35201,
     12391, 12377]"

text \<open>
  \<open>click_bait_words\<close>: houhou, kotsu, hiketsu, kanzen, gaido, saikou, kouka, osusume,
  ninki, hissu.
\<close>

definition click_bait_words :: "ustr list" where
  "click_bait_words =
     [[26041, 27861], [12467, 12484], [31192, 35363], [23436, 20840], [12460, 12452, 12489],
      [26368, 39640], [21177, 26524], [12362, 12377, 12377, 12417], [20154, 27671],
      [24517, 38920]]"

record title_score =
  score :: int
  comment :: ustr

text \<open>
  The source updates \<open>score\<close> and \<open>comments\<close> in four successive \<open>if\<close> statements; each
  statement is one binding of the pair here.
\<close>

definition evaluate_seo_title :: "unicode_db \<Rightarrow> ustr \<Rightarrow> ustr \<Rightarrow> title_score" where
  "evaluate_seo_title db title main_keyword =
     (let (score1, comments1) =
            (if \<not> contains (lower db title) (lower db main_keyword)
             then (100 - 30, [msg_missing_keyword]) else (100, []));
          title_length = length title;
          (score2, comments2) =
            (if title_length > 35 then (score1 - 15, comments1 @ [msg_too_long])
             else if title_length < 10 then (score1 - 10, comments1 @ [msg_too_short])
             else (score1, comments1));
          (score3, comments3) =
            (if \<not> list_ex (isdigit db) title then (score2 - 5, comments2 @ [msg_no_digit])
             else (score2, comments2));
          (score4, comments4) =
            (if \<not> list_ex (\<lambda>word. contains title word) click_bait_words
             then (score3 - 5, comments3 @ [msg_no_appeal]) else (score3, comments3));
          score5 = max 0 (min 100 score4);
          summary =
            (if score5 \<ge> 80 then (if comments4 = [] then summary_excellent else summary_good)
             else if score5 \<ge> 60 then summary_average
             else summary_poor);
          comment = (if comments4 \<noteq> [] then summary @ [58, 32] @ join [32, 47, 32] comments4
                     else summary)
      in \<lparr> score = score5, comment = comment \<rparr>)"

section \<open>Heading structure analyzer: \<open>SEOAnalyzer.analyze_headings\<close>\<close>

text \<open>\<open>s.split(sep)\<close> for a separator of one character; the result is never empty.\<close>

fun split_char :: "nat \<Rightarrow> ustr \<Rightarrow> ustr list" where
  "split_char sep [] = [[]]"
| "split_char sep (c # cs) =
     (let r = split_char sep cs in if c = sep then [] # r else (c # hd r) # tl r)"

text \<open>
  \<open>len(re.findall('^' + pat, s, re.MULTILINE))\<close> for a non-empty literal \<open>pat\<close>: the scanner
  goes through the text from left to right; \<open>bol\<close> says that the position is the start of
  the text or follows a newline (code point 10), the only places where \<open>^\<close> matches. After
  a match it resumes behind the match, otherwise one character further.
\<close>

function findall_bol :: "ustr \<Rightarrow> bool \<Rightarrow> ustr \<Rightarrow> nat" where
  "findall_bol pat bol [] = 0"
| "findall_bol pat bol (c # cs) =
     (if bol \<and> pat \<noteq> [] \<and> prefix pat (c # cs)
      then Suc (findall_bol pat (last pat = 10) (drop (length pat) (c # cs)))
      else findall_bol pat (c = 10) cs)"
  by pat_completeness auto
termination
  by (relation "measure (\<lambda>(pat, bol, s). length s)") auto

record heading_counts =
  h1 :: nat
  h2 :: nat
  h3 :: nat
  h4 :: nat
  h5 :: nat
  h6 :: nat

record heading_result =
  counts :: heading_counts
  has_h1 :: bool
  has_h2 :: bool
  too_many_h1 :: bool
  is_good_structure :: bool

text \<open>The six patterns are one to six \<open>#\<close> (code point 35) followed by a space (32).\<close>

definition analyze_headings :: "ustr \<Rightarrow> heading_result" where
  "analyze_headings text =
     (let h1_count = findall_bol [35, 32] True text;
          h2_count = findall_bol [35, 35, 32] True text;
          h3_count = findall_bol [35, 35, 35, 32] True text;
          h4_count = findall_bol [35, 35, 35, 35, 32] True text;
          h5_count = findall_bol [35, 35, 35, 35, 35, 32] True text;
          h6_count = findall_bol [35, 35, 35, 35, 35, 35, 32] True text;
          has_h1 = h1_count > 0;
          has_h2 = h2_count > 0;
          too_many_h1 = h1_count > 1;
          is_good_structure = (has_h1 \<and> has_h2 \<and> \<not> too_many_h1)
      in \<lparr> counts = \<lparr> h1 = h1_count, h2 = h2_count, h3 = h3_count, h4 = h4_count,
                        h5 = h5_count, h6 = h6_count \<rparr>,
           has_h1 = has_h1, has_h2 = has_h2, too_many_h1 = too_many_h1,
           is_good_structure = is_good_structure \<rparr>)"

text \<open>
  The specification's heading line of level \<open>k\<close>: the line begins with exactly \<open>k\<close>
  characters \<open>#\<close>, and the character after them is a space.
\<close>

definition heading_line :: "nat \<Rightarrow> ustr \<Rightarrow> bool" where
  "heading_line k l = (length (takeWhile (\<lambda>c. c = 35) l) = k \<and> prefix [32] (drop k l))"

section \<open>Floating-point numbers\<close>

text \<open>
  A Python \<open>float\<close> is an IEEE 754 double. A double is modelled as the rational number it
  denotes, and an operation as the exact operation followed by \<open>to_double\<close>, the rounding to
  the nearest number with a significand of 53 bits, a tie going to the even significand.
  The exponent range is not modelled: the quotients and percentages of counts of
  characters that the analyzers compute lie far inside it.
\<close>

text \<open>The integer nearest to \<open>x\<close>, a tie going to the even one.\<close>

definition round_half_even :: "rat \<Rightarrow> int" where
  "round_half_even x =
     (let f = \<lfloor>x\<rfloor>; d = x - of_int f
      in if d < 1 / 2 then f else if d > 1 / 2 then f + 1 else if even f then f else f + 1)"

text \<open>
  For a positive \<open>x\<close>, the exponent \<open>e\<close> with \<open>2 ^ e \<le> x < 2 ^ (e + 1)\<close>: it is the
  difference of the bit lengths of numerator and denominator, or one less.
\<close>

definition float_exponent :: "rat \<Rightarrow> int" where
  "float_exponent x =
     (let (p, q) = quotient_of x; d = bitlen p - bitlen q
      in if 2 powi d \<le> x then d else d - 1)"

definition to_double :: "rat \<Rightarrow> rat" where
  "to_double x =
     (if x = 0 then 0
      else let a = \<bar>x\<bar>; u = 2 powi (float_exponent a - 52);
               r = of_int (round_half_even (a / u)) * u
           in if x < 0 then - r else r)"

text \<open>
  \<open>round(x, 2)\<close> on a float: the runtime rounds the exact value of the double \<open>x\<close> to two
  decimal places, a tie going to the even digit, and returns the double nearest to that
  decimal number.
\<close>

definition py_round2 :: "rat \<Rightarrow> rat" where
  "py_round2 x = to_double (of_int (round_half_even (x * 100)) / 100)"

section \<open>Keyword density analyzer: \<open>SEOAnalyzer.analyze_keyword_density\<close>\<close>

text \<open>
  \<open>re.sub(r'#|\*|_|-|\[|\]|\(|\)|`', '', text)\<close>: every occurrence of one of the nine characters
  \<open># * _ - [ ] ( )\<close> and the backquote is removed.
\<close>

definition markdown_markers :: ustr where
  "markdown_markers = [35, 42, 95, 45, 91, 93, 40, 41, 96]"

definition strip_markdown :: "ustr \<Rightarrow> ustr" where
  "strip_markdown text = filter (\<lambda>c. c \<notin> set markdown_markers) text"

text \<open>
  \<open>re.findall(r'\w+', s)\<close>: the maximal runs of word characters, from left to right.
\<close>

function findall_words :: "(nat \<Rightarrow> bool) \<Rightarrow> ustr \<Rightarrow> ustr list" where
  "findall_words isw [] = []"
| "findall_words isw (c # cs) =
     (if isw c then takeWhile isw (c # cs) # findall_words isw (dropWhile isw (c # cs))
      else findall_words isw cs)"
  by pat_completeness auto
termination
  by (relation "measure (\<lambda>(isw, s). length s)")
     (auto simp: length_dropWhile_le less_Suc_eq_le)

text \<open>
  \<open>s.count(sub)\<close>: the number of non-overlapping occurrences of \<open>sub\<close> in \<open>s\<close>, found from
  left to right; for the empty \<open>sub\<close> the runtime returns the length of \<open>s\<close> plus one.
\<close>

function count_sub :: "ustr \<Rightarrow> ustr \<Rightarrow> nat" where
  "count_sub [] sub = (if sub = [] then 1 else 0)"
| "count_sub (c # cs) sub =
     (if sub = [] then length (c # cs) + 1
      else if prefix sub (c # cs) then Suc (count_sub (drop (length sub) (c # cs)) sub)
      else count_sub cs sub)"
  by pat_completeness auto
termination
  by (relation "measure (\<lambda>(s, sub). length s)") auto

text \<open>The three recommendations: too low, too high, appropriate.\<close>

definition rec_too_low :: ustr where
  "rec_too_low = [12461, 12540, 12527, 12540, 12489, 23494, 24230, 12364, 20302, 12377, 12366,
     12414, 12377, 12290, 35352, 20107, 20869, 12391, 12461, 12540, 12527, 12540, 12489, 12434,
     12418, 12358, 23569, 12375, 20351, 29992, 12377, 12427, 12371, 12392, 12434, 26908, 35342,
     12375, 12390, 12367, 12384, 12373, 12356, 12290]"

definition rec_too_high :: ustr where
  "rec_too_high = [12461, 12540, 12527, 12540, 12489, 23494, 24230, 12364, 39640, 12377, 12366,
     12427, 21487, 33021, 24615, 12364, 12354, 12426, 12414, 12377, 12290, 33258, 28982, 12394,
     25991, 31456, 12395, 12394, 12427, 12424, 12358, 35519, 25972, 12375, 12390, 12367, 12384,
     12373, 12356, 12290]"

definition rec_ok :: ustr where
  "rec_ok = [12461, 12540, 12527, 12540, 12489, 23494, 24230, 12399, 36969, 20999, 12394, 31684,
     22258, 20869, 12391, 12377, 12290]"

record keyword_density =
  keyword_count :: nat
  total_words :: nat
  density :: rat
  recommendation :: ustr

text \<open>
  \<open>keyword_count / total_words\<close> divides two integers and gives the double nearest to the
  quotient; the product with 100 is rounded again; \<open>0.5\<close> and \<open>3.0\<close> are doubles.
\<close>

definition analyze_keyword_density :: "unicode_db \<Rightarrow> ustr \<Rightarrow> ustr \<Rightarrow> keyword_density" where
  "analyze_keyword_density db text keyword =
     (let clean_text = strip_markdown text;
          words = findall_words (isword db) clean_text;
          total_words = length words;
          keyword_lower = lower db keyword;
          text_lower = lower db clean_text;
          keyword_count = count_sub text_lower keyword_lower;
          density = (if total_words > 0
                     then to_double (to_double (of_nat keyword_count / of_nat total_words) * 100)
                     else 0);
          recommendation = (if density < 1 / 2 then rec_too_low
                            else if density > 3 then rec_too_high
                            else rec_ok)
      in \<lparr> keyword_count = keyword_count, total_words = total_words,
           density = py_round2 density, recommendation = recommendation \<rparr>)"

section \<open>Whitespace\<close>

text \<open>
  The whitespace of the runtime: the characters for which \<open>str.isspace\<close> holds, which are
  also the ones that \<open>str.strip\<close> removes and that the class \<open>\s\<close> of \<open>re\<close> matches in a
  \<open>str\<close> pattern.
\<close>

definition isspace :: "nat \<Rightarrow> bool" where
  "isspace c =
     ((9 \<le> c \<and> c \<le> 13) \<or> (28 \<le> c \<and> c \<le> 32) \<or> c = 133 \<or> c = 160 \<or> c = 5760
      \<or> (8192 \<le> c \<and> c \<le> 8202) \<or> c = 8232 \<or> c = 8233 \<or> c = 8239 \<or> c = 8287
      \<or> c = 12288)"

text \<open>\<open>s.strip()\<close>: leading and trailing whitespace removed.\<close>

definition strip :: "ustr \<Rightarrow> ustr" where
  "strip s = rev (dropWhile isspace (rev (dropWhile isspace s)))"

section \<open>Table of contents: \<open>MarkdownProcessor.add_toc_if_needed\<close>\<close>

text \<open>
  \<open>re.match(r'^(#{1,3})\s+(.+)$', line)\<close> on a line without newline, as \<open>split('\n')\<close>
  yields them; the result is the length of group 1 and group 2. Group 1 must take all
  leading \<open>#\<close>, since a \<open>#\<close> is not whitespace; so there are one to three of them. The
  greedy \<open>\s+\<close> takes the whole run of whitespace that follows and \<open>.+\<close> the non-empty
  remainder; when nothing remains, \<open>\s+\<close> gives back its last character to \<open>.+\<close>, which
  needs a run of at least two.
\<close>

definition match_heading :: "ustr \<Rightarrow> (nat \<times> ustr) option" where
  "match_heading line =
     (let hashes = takeWhile (\<lambda>c. c = 35) line;
          rest = dropWhile (\<lambda>c. c = 35) line;
          spaces = takeWhile isspace rest;
          body = dropWhile isspace rest
      in if length hashes < 1 \<or> length hashes > 3 \<or> spaces = [] then None
         else if body \<noteq> [] then Some (length hashes, body)
         else if length spaces \<ge> 2 then Some (length hashes, [last spaces])
         else None)"

text \<open>
  The loop over the lines: a matching line of level above 1 is appended as the pair of its
  level and its stripped text.
\<close>

fun collect_headings :: "ustr list \<Rightarrow> (nat \<times> ustr) list" where
  "collect_headings [] = []"
| "collect_headings (line # lines) =
     (case match_heading line of
        None \<Rightarrow> collect_headings lines
      | Some (level, g2) \<Rightarrow>
          (if level > 1 then (level, strip g2) # collect_headings lines
           else collect_headings lines))"

text \<open>The two markers of an existing table of contents, with and without the space.\<close>

definition toc_title :: ustr where
  "toc_title = [35, 35, 32, 30446, 27425]"

definition toc_title_nospace :: ustr where
  "toc_title_nospace = [35, 35, 30446, 27425]"

text \<open>
  One line of the table: the indentation, \<open>- [\<close>, the text without square brackets,
  \<open>](#\<close>, the anchor (lower-cased, spaces replaced by hyphens) and \<open>)\<close>.
\<close>

definition toc_entry :: "unicode_db \<Rightarrow> nat \<times> ustr \<Rightarrow> ustr" where
  "toc_entry db h =
     (let (level, text) = h;
          indent = concat (replicate (level - 2) [32, 32]);
          link_text = filter (\<lambda>c. c \<noteq> 93) (filter (\<lambda>c. c \<noteq> 91) text);
          anchor = map (\<lambda>c. if c = 32 then 45 else c) (lower db link_text)
      in indent @ [45, 32, 91] @ link_text @ [93, 40, 35] @ anchor @ [41])"

text \<open>
  \<open>s.split(sep, 1)\<close> for a non-empty \<open>sep\<close>: the parts before and after the first occurrence
  of \<open>sep\<close>, or \<open>None\<close> when there is none (the runtime then returns the one-element list).
\<close>

fun split_first :: "ustr \<Rightarrow> ustr \<Rightarrow> ustr \<Rightarrow> (ustr \<times> ustr) option" where
  "split_first sep acc [] = None"
| "split_first sep acc (c # cs) =
     (if prefix sep (c # cs) then Some (rev acc, drop (length sep) (c # cs))
      else split_first sep (c # acc) cs)"

definition add_toc_if_needed :: "unicode_db \<Rightarrow> ustr \<Rightarrow> ustr" where
  "add_toc_if_needed db markdown_text =
     (if contains markdown_text toc_title \<or> contains markdown_text toc_title_nospace
      then markdown_text
      else
        let headings = collect_headings (split_char 10 markdown_text)
        in if headings = [] then markdown_text
           else
             let toc = [toc_title, []] @ map (toc_entry db) headings @ [[]]
             in case split_first [10, 10] [] markdown_text of
                  Some (title_part, body_part) \<Rightarrow>
                    title_part @ [10, 10] @ join [10] toc @ [10, 10] @ body_part
                | None \<Rightarrow> markdown_text @ [10, 10] @ join [10] toc)"

section \<open>Readability analyzer: \<open>SEOAnalyzer.analyze_readability\<close>\<close>

text \<open>
  One match of \<open>\n\s*\n\<close>, tried behind a newline: the greedy \<open>\s*\<close> takes the whole run of
  whitespace that follows and gives back characters until a newline comes next, so the
  match ends with the last newline of that run. The result is the text behind the match,
  or \<open>None\<close> when the run holds no newline.
\<close>

definition match_blank :: "ustr \<Rightarrow> ustr option" where
  "match_blank rest =
     (let run = takeWhile isspace rest
      in if 10 \<in> set run
         then Some (drop (length run - length (takeWhile (\<lambda>c. c \<noteq> 10) (rev run))) rest)
         else None)"

text \<open>
  \<open>re.split(r'\n\s*\n', s)\<close>: the pieces between the matches, which are found from left to
  right; \<open>acc\<close> is the current piece, reversed.
\<close>

function re_split_blank :: "ustr \<Rightarrow> ustr \<Rightarrow> ustr list" where
  "re_split_blank acc [] = [rev acc]"
| "re_split_blank acc (c # cs) =
     (if c = 10
      then (case match_blank cs of
              Some rest \<Rightarrow> rev acc # re_split_blank [] rest
            | None \<Rightarrow> re_split_blank (c # acc) cs)
      else re_split_blank (c # acc) cs)"
  by pat_completeness auto
termination
  by (relation "measure (\<lambda>(acc, s). length s)")
     (auto simp: less_Suc_eq_le match_blank_def Let_def split: if_splits)

text \<open>
  The class of sentence terminators: the ideographic full stop 12290, \<open>.\<close>, \<open>!\<close>, \<open>?\<close> and
  the full-width exclamation and question marks 65281 and 65311.
\<close>

definition is_terminator :: "nat \<Rightarrow> bool" where
  "is_terminator c = (c = 12290 \<or> c = 46 \<or> c = 33 \<or> c = 63 \<or> c = 65281 \<or> c = 65311)"

text \<open>
  \<open>re.split(r'[...]+', s)\<close> for that class: a match is a maximal run of terminators.
\<close>

function re_split_terminators :: "ustr \<Rightarrow> ustr \<Rightarrow> ustr list" where
  "re_split_terminators acc [] = [rev acc]"
| "re_split_terminators acc (c # cs) =
     (if is_terminator c
      then rev acc # re_split_terminators [] (dropWhile is_terminator cs)
      else re_split_terminators (c # acc) cs)"
  by pat_completeness auto
termination
  by (relation "measure (\<lambda>(acc, s). length s)")
     (auto simp: less_Suc_eq_le length_dropWhile_le)

record readability =
  paragraph_count :: nat
  sentence_count :: nat
  long_paragraphs_count :: nat
  avg_paragraph_length :: rat
  avg_sentence_length :: rat
  is_good_readability :: bool

text \<open>
  The averages divide two integers and are doubles; \<open>0.3\<close> is the double nearest to three
  tenths. The conditional expression of the source spans the whole conjunction: without
  a paragraph the verdict is \<open>True\<close>.
\<close>

definition analyze_readability :: "ustr \<Rightarrow> readability" where
  "analyze_readability text =
     (let clean_text = strip_markdown text;
          paragraphs = map strip (filter (\<lambda>p. strip p \<noteq> []) (re_split_blank [] clean_text));
          paragraph_count = length paragraphs;
          sentences =
            map strip (filter (\<lambda>s. strip s \<noteq> []) (re_split_terminators [] clean_text));
          sentence_count = length sentences;
          long_paragraphs_count = length (filter (\<lambda>p. length p > 100) paragraphs);
          avg_paragraph_length =
            (if paragraph_count > 0
             then to_double (of_nat (sum_list (map length paragraphs)) / of_nat paragraph_count)
             else 0);
          avg_sentence_length =
            (if sentence_count > 0
             then to_double (of_nat (sum_list (map length sentences)) / of_nat sentence_count)
             else 0);
          is_good_readability =
            (if paragraph_count > 0
             then avg_paragraph_length < 120 \<and> avg_sentence_length < 50
                  \<and> to_double (of_nat long_paragraphs_count / of_nat paragraph_count)
                      < to_double (3 / 10)
             else True)
      in \<lparr> paragraph_count = paragraph_count, sentence_count = sentence_count,
           long_paragraphs_count = long_paragraphs_count,
           avg_paragraph_length = avg_paragraph_length,
           avg_sentence_length = avg_sentence_length,
           is_good_readability = is_good_readability \<rparr>)"

section \<open>Properties of the title scorer\<close>

text \<open>
  C8: the title "otoku na houhou" (code points 12362, 24471, 12394, 26041, 27861) with the
  keyword "houhou" (26041, 27861) scores 85: the keyword is present, the length 5 is below 10
  (minus 10), there is no digit (minus 5), and the persuasive word "houhou" is present.
\<close>

theorem score_title_example:
  "score (evaluate_seo_title latin1_db [12362, 24471, 12394, 26041, 27861] [26041, 27861]) = 85"
  by (simp add: evaluate_seo_title_def latin1_db_def latin1_lower_def latin1_isdigit_def
      click_bait_words_def Let_def)

text \<open>
  C9: for every title and every keyword, whatever the character tables, the score lies
  between 0 and 100.
\<close>

theorem score_title_clamped:
  "0 \<le> score (evaluate_seo_title db title main_keyword)
   \<and> score (evaluate_seo_title db title main_keyword) \<le> 100"
  by (simp add: evaluate_seo_title_def Let_def)

text \<open>
  C10: for every title and every keyword, whatever the character tables, the score is at
  least 45: the deductions sum to at most 55, so the lower clamp never binds.
\<close>

theorem score_title_at_least_45:
  "45 \<le> score (evaluate_seo_title db title main_keyword)"
  by (simp add: evaluate_seo_title_def Let_def)

section \<open>Properties of the heading structure analyzer\<close>

lemma split_char_ne: "split_char sep s \<noteq> []"
  by (induction s) (auto simp: Let_def)

lemma split_char_append:
  "sep \<notin> set p \<Longrightarrow> split_char sep (p @ s) = (p @ hd (split_char sep s)) # tl (split_char sep s)"
  using split_char_ne[of sep s]
  by (induction p) (auto simp: Let_def)

lemma prefix_hd_line:
  "10 \<notin> set pat \<Longrightarrow> prefix pat (hd (split_char 10 s)) \<longleftrightarrow> prefix pat s"
proof (induction s arbitrary: pat)
  case Nil
  then show ?case by simp
next
  case (Cons c cs)
  show ?case
  proof (cases pat)
    case Nil
    then show ?thesis by simp
  next
    case (Cons p ps)
    then show ?thesis using Cons.IH[of ps] Cons.prems by (auto simp: Let_def)
  qed
qed

lemma findall_bol_lines:
  assumes "10 \<notin> set pat" "pat \<noteq> []"
  shows "findall_bol pat bol s =
     length (filter (prefix pat) (if bol then split_char 10 s else tl (split_char 10 s)))"
  using assms
proof (induction pat bol s rule: findall_bol.induct)
  case (1 pat bol)
  then show ?case by (cases pat) auto
next
  case (2 pat bol c cs)
  show ?case
  proof (cases "bol \<and> pat \<noteq> [] \<and> prefix pat (c # cs)")
    case True
    then obtain rest where r: "c # cs = pat @ rest" by (auto simp: prefix_def)
    have l: "last pat \<noteq> 10" using 2(3,4) by (metis last_in_set)
    have d: "drop (length pat) (c # cs) = rest" using r by simp
    have "findall_bol pat bol (c # cs) = Suc (findall_bol pat False rest)"
      using True l by (simp only: findall_bol.simps d if_True simp_thms)
    moreover have "findall_bol pat False rest = length (filter (prefix pat) (tl (split_char 10 rest)))"
      using 2(1)[OF True] 2(3,4) l by (simp only: d simp_thms if_False)
    moreover have "split_char 10 (c # cs) = (pat @ hd (split_char 10 rest)) # tl (split_char 10 rest)"
      using split_char_append[OF 2(3), of rest] by (simp only: r)
    ultimately show ?thesis using True by simp
  next
    case False
    have ih: "findall_bol pat (c = 10) cs =
       length (filter (prefix pat) (if c = 10 then split_char 10 cs else tl (split_char 10 cs)))"
      using 2(2)[OF False] 2(3,4) by simp
    have np: "bol \<Longrightarrow> \<not> prefix pat (c # cs)" using False 2(4) by simp
    show ?thesis
    proof (cases "c = 10")
      case True
      then show ?thesis using ih False 2(3,4) np by (cases pat) (auto simp: Let_def)
    next
      case c: False
      have "prefix pat (c # hd (split_char 10 cs)) \<longleftrightarrow> prefix pat (c # cs)"
        using prefix_hd_line[OF 2(3), of "c # cs"] c by (simp add: Let_def)
      then show ?thesis using ih False c np by (auto simp: Let_def)
    qed
  qed
qed


lemma heading_line_prefix:
  "prefix (replicate k 35 @ [32]) l \<longleftrightarrow> heading_line k l"
proof
  assume "prefix (replicate k 35 @ [32]) l"
  then obtain r where "l = replicate k 35 @ 32 # r" by (auto simp: prefix_def)
  then show "heading_line k l"
    by (simp add: heading_line_def takeWhile_append)
next
  assume h: "heading_line k l"
  have "l = takeWhile (\<lambda>c. c = 35) l @ drop k l"
    using h takeWhile_dropWhile_id[of "\<lambda>c. c = 35" l]
    by (metis append_eq_conv_conj heading_line_def)
  moreover have "takeWhile (\<lambda>c. c = 35) l = replicate k 35"
    using h by (metis (mono_tags, lifting) heading_line_def replicate_eqI set_takeWhileD)
  moreover obtain r where "drop k l = 32 # r" using h by (auto simp: heading_line_def prefix_def)
  ultimately have "l = (replicate k 35 @ [32]) @ r" by simp
  then show "prefix (replicate k 35 @ [32]) l" by (metis prefixI)
qed

lemma count_level:
  "findall_bol (replicate k 35 @ [32]) True text =
     length (filter (heading_line k) (split_char 10 text))"
proof -
  have "prefix (replicate k 35 @ [32]) = heading_line k"
    by (rule ext) (rule heading_line_prefix)
  then show ?thesis
    using findall_bol_lines[of "replicate k 35 @ [32]" True "text"] by simp
qed

lemma pat1: "[35, 32] = replicate 1 35 @ [32::nat]" by (simp add: numeral_eq_Suc)
lemma pat2: "[35, 35, 32] = replicate 2 35 @ [32::nat]" by (simp add: numeral_eq_Suc)
lemma pat3: "[35, 35, 35, 32] = replicate 3 35 @ [32::nat]" by (simp add: numeral_eq_Suc)
lemma pat4: "[35, 35, 35, 35, 32] = replicate 4 35 @ [32::nat]" by (simp add: numeral_eq_Suc)
lemma pat5: "[35, 35, 35, 35, 35, 32] = replicate 5 35 @ [32::nat]" by (simp add: numeral_eq_Suc)
lemma pat6: "[35, 35, 35, 35, 35, 35, 32] = replicate 6 35 @ [32::nat]" by (simp add: numeral_eq_Suc)

lemma h4_only_document: "counts (analyze_headings [35, 35, 35, 35, 32, 84, 105, 116, 108, 101]) =
        \<lparr> h1 = 0, h2 = 0, h3 = 0, h4 = 1, h5 = 0, h6 = 0 \<rparr>"
  by (simp add: analyze_headings_def)

text \<open>
  C3: heading counting is exact-level. For every document and every level from 1 to 6, the
  count of that level is the number of lines (the pieces between newlines) that begin with
  exactly that many \<open>#\<close> followed by a space; the document that is the single line
  \<open>#### Title\<close> has one heading of level 4 and none of any other level.
\<close>

theorem headings_exact_level:
  "h1 (counts (analyze_headings text)) = length (filter (heading_line 1) (split_char 10 text))
   \<and> h2 (counts (analyze_headings text)) = length (filter (heading_line 2) (split_char 10 text))
   \<and> h3 (counts (analyze_headings text)) = length (filter (heading_line 3) (split_char 10 text))
   \<and> h4 (counts (analyze_headings text)) = length (filter (heading_line 4) (split_char 10 text))
   \<and> h5 (counts (analyze_headings text)) = length (filter (heading_line 5) (split_char 10 text))
   \<and> h6 (counts (analyze_headings text)) = length (filter (heading_line 6) (split_char 10 text))
   \<and> counts (analyze_headings [35, 35, 35, 35, 32, 84, 105, 116, 108, 101]) =
        \<lparr> h1 = 0, h2 = 0, h3 = 0, h4 = 1, h5 = 0, h6 = 0 \<rparr>"
  using count_level[of 1 "text"] count_level[of 2 "text"] count_level[of 3 "text"]
    count_level[of 4 "text"] count_level[of 5 "text"] count_level[of 6 "text"] h4_only_document
  unfolding pat1[symmetric] pat2[symmetric] pat3[symmetric] pat4[symmetric] pat5[symmetric] pat6[symmetric]
  by (simp add: analyze_headings_def Let_def)

text \<open>
  C4: the structure is good exactly when there is at least one heading of level 1, at least
  one of level 2 and at most one of level 1. The document \<open># T\<close>, \<open>## A\<close>, \<open>## B\<close> (three
  lines) is good, \<open>## A\<close> is not (no level 1), and \<open># T\<close>, \<open># U\<close>, \<open>## A\<close> is not (two of
  level 1).
\<close>

theorem good_structure_iff:
  "(is_good_structure (analyze_headings text) \<longleftrightarrow>
      h1 (counts (analyze_headings text)) \<ge> 1 \<and> h2 (counts (analyze_headings text)) \<ge> 1
      \<and> h1 (counts (analyze_headings text)) \<le> 1)
   \<and> is_good_structure (analyze_headings [35, 32, 84, 10, 35, 35, 32, 65, 10, 35, 35, 32, 66])
   \<and> \<not> is_good_structure (analyze_headings [35, 35, 32, 65])
   \<and> \<not> is_good_structure (analyze_headings [35, 32, 84, 10, 35, 32, 85, 10, 35, 35, 32, 65])"
  by (auto simp add: analyze_headings_def Let_def)

section \<open>Properties of the keyword density analyzer\<close>

lemma count_sub_empty: "count_sub s [] = length s + 1"
  by (cases s) simp_all

text \<open>
  C1 as stated fails: for the text \<open>ab\<close> and the empty keyword the count is 3, the length
  of the text plus one, not 0.
\<close>

theorem density_empty_keyword_counterexample:
  "keyword_count (analyze_keyword_density latin1_db [97, 98] []) = 3"
  by (simp add: analyze_keyword_density_def latin1_db_def Let_def strip_markdown_def
      markdown_markers_def)

text \<open>
  C1, amended: with the empty keyword the count is the length of the normalized, lower-cased
  text plus one. The analyzer has no special case for the empty keyword; the count is
  whatever \<open>str.count\<close> returns.
\<close>

theorem density_empty_keyword:
  "lower db [] = [] \<Longrightarrow>
   keyword_count (analyze_keyword_density db text []) = length (lower db (strip_markdown text)) + 1"
  by (simp add: analyze_keyword_density_def Let_def count_sub_empty)

theorem density_empty_keyword_witness:
  "lower latin1_db [] = [] \<and>
   keyword_count (analyze_keyword_density latin1_db [35, 32, 97, 98] []) =
     length (lower latin1_db (strip_markdown [35, 32, 97, 98])) + 1 \<and>
   length (lower latin1_db (strip_markdown [35, 32, 97, 98])) + 1 = 4"
  using density_empty_keyword[of latin1_db "[35, 32, 97, 98]"]
  by (simp add: latin1_db_def strip_markdown_def markdown_markers_def)





lemma density_tie_23_of_160:
  "py_round2 (to_double (to_double (23 / 160) * 100)) = to_double (1437 / 100)"
  by code_simp

lemma density_tie_49_of_160:
  "py_round2 (to_double (to_double (49 / 160) * 100)) = to_double (3063 / 100)"
  by code_simp


text \<open>
  C7 as stated fails: the text \<open>strasse\<close> written with the sharp s (code point 223) holds
  the keyword of the same spelling once, and holds its upper-casing \<open>STRASSE\<close> not at all:
  \<open>str.lower\<close> turns \<open>STRASSE\<close> into \<open>strasse\<close> with a double s.
\<close>

theorem density_case_change_counterexample:
  "keyword_count (analyze_keyword_density latin1_db [115, 116, 114, 97, 223, 101]
      [115, 116, 114, 97, 223, 101]) = 1
   \<and> keyword_count (analyze_keyword_density latin1_db [115, 116, 114, 97, 223, 101]
      [83, 84, 82, 65, 83, 83, 69]) = 0"
  by (simp add: analyze_keyword_density_def latin1_db_def latin1_lower_def Let_def
      strip_markdown_def markdown_markers_def)

text \<open>
  C7, amended: two keywords with the same lower-casing under \<open>str.lower\<close> give the same
  result record for every text, whatever the character tables; \<open>Keyword\<close> and \<open>keyword\<close>
  are such a pair.
\<close>

theorem density_case_insensitive:
  "lower db k1 = lower db k2 \<Longrightarrow>
   analyze_keyword_density db text k1 = analyze_keyword_density db text k2"
  by (simp add: analyze_keyword_density_def)

theorem density_case_insensitive_witness:
  "lower latin1_db [75, 101, 121, 119, 111, 114, 100] = lower latin1_db [107, 101, 121, 119, 111, 114, 100]
   \<and> analyze_keyword_density latin1_db [65, 32, 75, 69, 89, 119, 111, 114, 100] [75, 101, 121, 119, 111, 114, 100]
     = analyze_keyword_density latin1_db [65, 32, 75, 69, 89, 119, 111, 114, 100] [107, 101, 121, 119, 111, 114, 100]
   \<and> keyword_count (analyze_keyword_density latin1_db [65, 32, 75, 69, 89, 119, 111, 114, 100]
        [75, 101, 121, 119, 111, 114, 100]) = 1"
  using density_case_insensitive[of latin1_db "[75, 101, 121, 119, 111, 114, 100]"
      "[107, 101, 121, 119, 111, 114, 100]" "[65, 32, 75, 69, 89, 119, 111, 114, 100]"]
  by (simp add: latin1_db_def latin1_lower_def analyze_keyword_density_def Let_def
      strip_markdown_def markdown_markers_def)

section \<open>Properties of the table of contents\<close>

lemma contains_middle: "contains (p @ sub @ q) sub"
proof (induction p)
  case Nil
  show ?case
  proof (cases "sub @ q")
    case Nil
    then show ?thesis by simp
  next
    case (Cons a l)
    have "prefix sub (a # l)" using Cons by (metis prefixI)
    then show ?thesis using Cons by simp
  qed
next
  case (Cons a p)
  then show ?case by simp
qed

lemma join_toc: "join sep ([t, []] @ es @ [[]]) = t @ (sep @ join sep ([] # es @ [[]]))"
  by simp

text \<open>
  C5: adding the table of contents is idempotent, for every Markdown string and whatever
  the character tables: a second application returns the result of the first. Either the
  first application returns its input, or its result contains the marker of the table.
\<close>

theorem add_toc_idempotent:
  "add_toc_if_needed db (add_toc_if_needed db x) = add_toc_if_needed db x"
proof (cases "contains x toc_title \<or> contains x toc_title_nospace")
  case True
  then show ?thesis by (simp add: add_toc_if_needed_def)
next
  case nt: False
  show ?thesis
  proof (cases "collect_headings (split_char 10 x) = []")
    case True
    then show ?thesis using nt by (simp add: add_toc_if_needed_def)
  next
    case False
    define es where "es = map (toc_entry db) (collect_headings (split_char 10 x))"
    define tail where "tail = [10] @ join [10] ([] # es @ [[]])"
    have j: "join [10] ([toc_title, []] @ es @ [[]]) = toc_title @ tail"
      unfolding tail_def by simp
    have "\<exists>p q. add_toc_if_needed db x = p @ toc_title @ q"
    proof (cases "split_first [10, 10] [] x")
      case None
      have "add_toc_if_needed db x = (x @ [10, 10]) @ toc_title @ tail"
        using nt False None j by (simp add: add_toc_if_needed_def Let_def es_def)
      then show ?thesis by blast
    next
      case (Some pr)
      obtain a b where pr: "pr = (a, b)" by (cases pr)
      have "add_toc_if_needed db x = (a @ [10, 10]) @ toc_title @ (tail @ [10, 10] @ b)"
        using nt False Some pr j by (simp add: add_toc_if_needed_def Let_def es_def)
      then show ?thesis by blast
    qed
    then obtain p q where "add_toc_if_needed db x = p @ toc_title @ q" by blast
    then have "contains (add_toc_if_needed db x) toc_title"
      using contains_middle by simp
    then show ?thesis
      by (simp add: add_toc_if_needed_def[of db "add_toc_if_needed db x"])
  qed
qed

section \<open>Properties of the readability analyzer\<close>







lemma readability_counts_example:
  "paragraph_count (analyze_readability [35, 32, 97, 46, 10, 10, 98, 98, 33, 63, 32, 99]) = 2
   \<and> sentence_count (analyze_readability [35, 32, 97, 46, 10, 10, 98, 98, 33, 63, 32, 99]) = 3
   \<and> long_paragraphs_count
        (analyze_readability [35, 32, 97, 46, 10, 10, 98, 98, 33, 63, 32, 99]) = 0"
  by (simp add: analyze_readability_def Let_def strip_markdown_def markdown_markers_def
      match_blank_def isspace_def is_terminator_def strip_def)

lemma readability_blank_example:
  "analyze_readability [10, 32, 10] =
     \<lparr> paragraph_count = 0, sentence_count = 0, long_paragraphs_count = 0,
       avg_paragraph_length = 0, avg_sentence_length = 0, is_good_readability = True \<rparr>"
  by (simp add: analyze_readability_def Let_def strip_markdown_def markdown_markers_def
      match_blank_def isspace_def is_terminator_def strip_def)


end
